theory Spec2Isabelle
  imports Main "HOL-Library.Sublist"
begin

chapter \<open>The program\<close>

section \<open>JavaScript strings and character classes\<close>

text \<open>
  A JavaScript string is a sequence of UTF-16 code units. The development models the
  strings whose code units are below 256 (the Latin-1 range): a \<^typ>\<open>string\<close> holds one
  \<^typ>\<open>char\<close> per code unit and \<^const>\<open>length\<close> is the \<open>.length\<close> of the source.
  Regular expressions without the \<open>u\<close> flag work on code units, so the character
  classes below are the classes of the source restricted to that range.
\<close>

definition is_digit :: "char \<Rightarrow> bool" where
  \<comment> \<open>\<open>\d\<close>, that is \<open>[0-9]\<close>\<close>
  "is_digit c = (let n = (of_char c :: nat) in 48 \<le> n \<and> n \<le> 57)"

definition is_lower_alnum :: "char \<Rightarrow> bool" where
  \<comment> \<open>\<open>[a-z0-9]\<close>\<close>
  "is_lower_alnum c =
     (let n = (of_char c :: nat) in (97 \<le> n \<and> n \<le> 122) \<or> (48 \<le> n \<and> n \<le> 57))"

definition is_word :: "char \<Rightarrow> bool" where
  \<comment> \<open>\<open>\w\<close>, that is \<open>[A-Za-z0-9_]\<close>\<close>
  "is_word c =
     (let n = (of_char c :: nat)
      in (65 \<le> n \<and> n \<le> 90) \<or> (97 \<le> n \<and> n \<le> 122) \<or> (48 \<le> n \<and> n \<le> 57) \<or> n = 95)"

definition is_space :: "char \<Rightarrow> bool" where
  \<comment> \<open>\<open>\s\<close> and the characters removed by \<open>trim()\<close>: TAB, LF, VT, FF, CR, SPACE, NBSP\<close>
  "is_space c = (let n = (of_char c :: nat) in (9 \<le> n \<and> n \<le> 13) \<or> n = 32 \<or> n = 160)"

definition is_line_terminator :: "char \<Rightarrow> bool" where
  \<comment> \<open>the characters \<open>.\<close> does not match, and at which \<open>^\<close> and \<open>$\<close> match under the \<open>m\<close> flag: LF, CR\<close>
  "is_line_terminator c = (let n = (of_char c :: nat) in n = 10 \<or> n = 13)"

definition toLowerChar :: "char \<Rightarrow> char" where
  \<comment> \<open>\<open>toLowerCase\<close> on one code unit below 256: A-Z, and the Latin-1 capitals except the multiplication sign\<close>
  "toLowerChar c =
     (let n = (of_char c :: nat)
      in if (65 \<le> n \<and> n \<le> 90) \<or> (192 \<le> n \<and> n \<le> 222 \<and> n \<noteq> 215) then char_of (n + 32) else c)"

definition toLowerCase :: "string \<Rightarrow> string" where
  "toLowerCase s = map toLowerChar s"

definition startsWith :: "string \<Rightarrow> string \<Rightarrow> bool" where
  "startsWith s p = (take (length p) s = p)"


definition trim :: "string \<Rightarrow> string" where
  "trim s = rev (dropWhile is_space (rev (dropWhile is_space s)))"

section \<open>GitHub fetcher: \<open>parseGitHubUrl\<close>\<close>

text \<open>
  The errors of the program: the two it throws itself (\<open>Invalid GitHub URL: ...\<close> and
  \<open>Could not find insertion point in browse.html\<close>), the rejections of the API and
  file-system calls it awaits, and the \<open>TypeError\<close> of reading a property of \<open>undefined\<close>.
\<close>

datatype error =
    InvalidGitHubUrl string
  | RequestFailed string
  | InsertionPointNotFound
  | ReadFailed string
  | TypeError








section \<open>GitHub fetcher: the repository data\<close>

record badge =
  abbr :: string
  name :: string
  description :: string
  color :: string



section \<open>GitHub fetcher: \<open>fetchRepoData\<close>\<close>







section \<open>GitHub fetcher: \<open>detectTechStack\<close>\<close>















section \<open>GitHub fetcher: \<open>parseReadme\<close>\<close>

text \<open>The argument of \<open>parseReadme\<close>: \<open>null\<close>, \<open>undefined\<close> or a string.\<close>

datatype readme_arg = Null | Undefined | Text string

record readme_fields =
  features :: "string list"
  installation :: "string list"
  description :: string

text \<open>The value returned: the object \<open>{}\<close> without any field, or the object with the three fields.\<close>

datatype parsed_readme = Empty_object | Fields readme_fields

text \<open>Reading a field of the returned object; \<^const>\<open>None\<close> is \<open>undefined\<close>.\<close>

fun get_features :: "parsed_readme \<Rightarrow> string list option" where
  "get_features Empty_object = None"
| "get_features (Fields r) = Some (features r)"

fun get_installation :: "parsed_readme \<Rightarrow> string list option" where
  "get_installation Empty_object = None"
| "get_installation (Fields r) = Some (installation r)"

fun get_description :: "parsed_readme \<Rightarrow> string option" where
  "get_description Empty_object = None"
| "get_description (Fields r) = Some (description r)"

abbreviation LF :: char where
  "LF \<equiv> CHR 0x0A"

subsection \<open>The description\<close>

text \<open>
  \<^verbatim>\<open>readme.split(/\n\n+/)\<close>: a separator is a whole run of two or more line feeds; the
  pieces between separators are the paragraphs, empty ones included.
\<close>

function split_paragraphs :: "string \<Rightarrow> string \<Rightarrow> string list" where
  "split_paragraphs cur [] = [cur]"
| "split_paragraphs cur (c # cs) =
     (if c = LF \<and> startsWith cs [LF]
      then cur # split_paragraphs [] (dropWhile (\<lambda>d. d = LF) cs)
      else split_paragraphs (cur @ [c]) cs)"
  by pat_completeness auto
termination
  by (relation "measure (\<lambda>(cur, s). length s)") (auto simp: length_dropWhile_le less_Suc_eq_le)

definition drop_optional_LF :: "string \<Rightarrow> string" where
  \<comment> \<open>\<open>\n?\<close>\<close>
  "drop_optional_LF s = (case s of [] \<Rightarrow> [] | c # cs \<Rightarrow> if c = LF then cs else s)"

text \<open>
  \<^verbatim>\<open>\s+.+\<close> at the start of \<open>r\<close>, where \<open>run\<close> is the number of white-space characters to
  try for \<open>\s+\<close>, from the whole run downwards: \<open>.+\<close> needs a first character that is no
  line terminator and then takes the rest of the line. The result is what follows.
\<close>

fun match_spaces_line :: "nat \<Rightarrow> string \<Rightarrow> string option" where
  "match_spaces_line 0 r = None"
| "match_spaces_line (Suc k) r =
     (let t = drop (Suc k) r
      in if t \<noteq> [] \<and> \<not> is_line_terminator (hd t)
         then Some (dropWhile (\<lambda>c. \<not> is_line_terminator c) t)
         else match_spaces_line k r)"

text \<open>
  \<^verbatim>\<open>para.replace(/^#+\s+.+\n?/, '')\<close>: without the \<open>m\<close> flag \<open>^\<close> is the start of the
  paragraph. \<open>#+\<close> takes all leading hashes (with fewer, the next character is a hash and
  \<open>\s+\<close> fails); the match, when there is one, is removed.
\<close>

definition strip_heading :: "string \<Rightarrow> string" where
  "strip_heading para =
     (let hashes = takeWhile (\<lambda>c. c = CHR ''#'') para;
          r = dropWhile (\<lambda>c. c = CHR ''#'') para
      in if hashes = [] then para
         else (case match_spaces_line (length (takeWhile is_space r)) r of
                 Some rest \<Rightarrow> drop_optional_LF rest
               | None \<Rightarrow> para))"

definition clean_paragraph :: "string \<Rightarrow> string" where
  "clean_paragraph para = trim (strip_heading para)"

definition qualifies :: "string \<Rightarrow> bool" where
  "qualifies cleaned =
     (cleaned \<noteq> [] \<and> \<not> startsWith cleaned ''#'' \<and> \<not> startsWith cleaned ''```'' \<and>
      length cleaned > 50)"

definition flatten_newlines :: "string \<Rightarrow> string" where
  \<comment> \<open>\<^verbatim>\<open>.replace(/\n/g, ' ')\<close>\<close>
  "flatten_newlines s = map (\<lambda>c. if c = LF then CHR '' '' else c) s"

fun first_description :: "string list \<Rightarrow> string" where
  "first_description [] = []"
| "first_description (para # paragraphs) =
     (let cleaned = clean_paragraph para
      in if qualifies cleaned then take 500 (flatten_newlines cleaned)
         else first_description paragraphs)"

subsection \<open>Sections under a heading\<close>

definition canonicalize :: "char \<Rightarrow> char" where
  \<comment> \<open>the case folding of the \<open>i\<close> flag on one code unit below 256\<close>
  "canonicalize c =
     (let n = (of_char c :: nat)
      in if (97 \<le> n \<and> n \<le> 122) \<or> (224 \<le> n \<and> n \<le> 254 \<and> n \<noteq> 247) then char_of (n - 32) else c)"

definition startsWith_ci :: "string \<Rightarrow> string \<Rightarrow> bool" where
  "startsWith_ci s p = (map canonicalize (take (length p) s) = map canonicalize p)"

text \<open>
  \<^verbatim>\<open>([\s\S]*?)(?=\n##|\n$)\<close>: the shortest text after which \<open>\n##\<close> follows or a single
  line feed ends the input.
\<close>

fun lazy_section_body :: "string \<Rightarrow> string \<Rightarrow> string option" where
  "lazy_section_body acc [] = None"
| "lazy_section_body acc (c # cs) =
     (if startsWith (c # cs) (LF # ''##'') \<or> c # cs = [LF] then Some acc
      else lazy_section_body (acc @ [c]) cs)"

text \<open>
  \<^verbatim>\<open>\s*(?:A|B|C)[^\n]*\n([\s\S]*?)(?=\n##|\n$)\<close> after the hashes: \<open>\s*\<close> takes the whole
  white-space run (no alternative starts with white space), one of the alternatives must
  follow, \<open>[^\n]*\n\<close> runs to the end of that line, and the group is the section body.
\<close>

definition match_heading_rest :: "string list \<Rightarrow> string \<Rightarrow> string option" where
  "match_heading_rest alts s =
     (let r = dropWhile is_space s
      in if list_ex (startsWith_ci r) alts
         then (case dropWhile (\<lambda>c. c \<noteq> LF) r of
                 [] \<Rightarrow> None
               | _ # body \<Rightarrow> lazy_section_body [] body)
         else None)"

text \<open>\<open>##?\<close> at the start of \<open>s\<close>: two hashes are tried first, then one.\<close>

definition match_section_at :: "string list \<Rightarrow> string \<Rightarrow> string option" where
  "match_section_at alts s =
     (if startsWith s ''##''
      then (case match_heading_rest alts (drop 2 s) of
              Some body \<Rightarrow> Some body
            | None \<Rightarrow> match_heading_rest alts (drop 1 s))
      else if startsWith s ''#'' then match_heading_rest alts (drop 1 s)
      else None)"

text \<open>\<open>readme.match(...)\<close>: group 1 of the leftmost match.\<close>

fun search_section :: "string list \<Rightarrow> string \<Rightarrow> string option" where
  "search_section alts [] = None"
| "search_section alts (c # cs) =
     (case match_section_at alts (c # cs) of
        Some body \<Rightarrow> Some body
      | None \<Rightarrow> search_section alts cs)"

subsection \<open>Feature bullets\<close>

text \<open>
  \<^verbatim>\<open>/^[-*]\s+(.+)$/gm\<close> at a line start: the bullet character, then \<open>\s+\<close> tried from the
  whole white-space run downwards until \<open>.+\<close> finds a first character; \<open>.+\<close> takes the
  rest of the line, where \<open>$\<close> holds. The result is the matched text.
\<close>

fun match_bullet_text :: "nat \<Rightarrow> string \<Rightarrow> string option" where
  "match_bullet_text 0 r = None"
| "match_bullet_text (Suc k) r =
     (let t = drop (Suc k) r
      in if t \<noteq> [] \<and> \<not> is_line_terminator (hd t)
         then Some (take (Suc k) r @ takeWhile (\<lambda>c. \<not> is_line_terminator c) t)
         else match_bullet_text k r)"

definition match_bullet_at :: "string \<Rightarrow> string option" where
  "match_bullet_at s =
     (case s of
        [] \<Rightarrow> None
      | c # cs \<Rightarrow>
          if c = CHR ''-'' \<or> c = CHR ''*''
          then map_option (\<lambda>m. c # m) (match_bullet_text (length (takeWhile is_space cs)) cs)
          else None)"

text \<open>
  All matches, left to right. \<open>bol\<close> says that the position is at a line start (the start
  of the text or just after a line terminator); \<open>skip\<close> counts the characters of the last
  match still to be passed.
\<close>

fun collect_bullets :: "bool \<Rightarrow> nat \<Rightarrow> string \<Rightarrow> string list" where
  "collect_bullets bol skip [] = []"
| "collect_bullets bol skip (c # cs) =
     (if skip > 0 then collect_bullets (is_line_terminator c) (skip - 1) cs
      else if bol then
        (case match_bullet_at (c # cs) of
           Some m \<Rightarrow> m # collect_bullets (is_line_terminator c) (length m - 1) cs
         | None \<Rightarrow> collect_bullets (is_line_terminator c) 0 cs)
      else collect_bullets (is_line_terminator c) 0 cs)"

definition strip_bullet :: "string \<Rightarrow> string" where
  \<comment> \<open>\<^verbatim>\<open>b.replace(/^[-*]\s+/, '').trim()\<close>\<close>
  "strip_bullet b =
     trim (case b of
             [] \<Rightarrow> []
           | c # cs \<Rightarrow>
               if (c = CHR ''-'' \<or> c = CHR ''*'') \<and> takeWhile is_space cs \<noteq> []
               then dropWhile is_space cs else b)"

definition feature_headings :: "string list" where
  "feature_headings = [''Features'', ''Key Features'', ''What it does'']"

definition extract_features :: "string \<Rightarrow> string list" where
  "extract_features rdme =
     (case search_section feature_headings rdme of
        None \<Rightarrow> []
      | Some body \<Rightarrow> map strip_bullet (take 6 (collect_bullets True 0 body)))"

subsection \<open>Installation steps\<close>

text \<open>\<^verbatim>\<open>/```[\s\S]*?```/g\<close>: from a fence to the nearest following fence.\<close>

fun lazy_to_fence :: "string \<Rightarrow> string \<Rightarrow> string option" where
  "lazy_to_fence acc [] = None"
| "lazy_to_fence acc (c # cs) =
     (if startsWith (c # cs) ''```'' then Some (acc @ ''```'') else lazy_to_fence (acc @ [c]) cs)"

fun collect_code_blocks :: "nat \<Rightarrow> string \<Rightarrow> string list" where
  "collect_code_blocks skip [] = []"
| "collect_code_blocks skip (c # cs) =
     (if skip > 0 then collect_code_blocks (skip - 1) cs
      else if startsWith (c # cs) ''```'' then
        (case lazy_to_fence ''```'' (drop 3 (c # cs)) of
           Some block \<Rightarrow> block # collect_code_blocks (length block - 1) cs
         | None \<Rightarrow> collect_code_blocks 0 cs)
      else collect_code_blocks 0 cs)"

text \<open>\<^verbatim>\<open>block.replace(/```\w*\n?/g, '')\<close>\<close>

function remove_fences :: "string \<Rightarrow> string" where
  "remove_fences [] = []"
| "remove_fences (c # cs) =
     (if startsWith (c # cs) ''```''
      then remove_fences (drop_optional_LF (dropWhile is_word (drop 3 (c # cs))))
      else c # remove_fences cs)"
  by pat_completeness auto
termination
proof (relation "measure length")
  show "wf (measure length)" by simp
next
  fix c :: char and cs :: string
  assume "startsWith (c # cs) ''```''"
  have a: "length (drop_optional_LF s) \<le> length s" for s
    by (cases s) (auto simp: drop_optional_LF_def)
  have "length (drop_optional_LF (dropWhile is_word (drop 3 (c # cs)))) \<le> length (dropWhile is_word (drop 3 (c # cs)))"
    by (rule a)
  also have "\<dots> \<le> length (drop 3 (c # cs))" by (rule length_dropWhile_le)
  also have "\<dots> < length (c # cs)" by simp
  finally show "(drop_optional_LF (dropWhile is_word (drop 3 (c # cs))), c # cs) \<in> measure length"
    by simp
next
  fix c :: char and cs :: string
  show "(cs, c # cs) \<in> measure length" by simp
qed

definition install_headings :: "string list" where
  "install_headings = [''Installation'', ''Getting Started'', ''Quick Start'', ''Setup'']"

definition extract_installation :: "string \<Rightarrow> string list" where
  "extract_installation rdme =
     (case search_section install_headings rdme of
        None \<Rightarrow> []
      | Some body \<Rightarrow>
          filter (\<lambda>cmd. length cmd > 0)
            (map (\<lambda>block. trim (remove_fences block)) (collect_code_blocks 0 body)))"

subsection \<open>The function\<close>

definition falsy :: "readme_arg \<Rightarrow> bool" where
  \<comment> \<open>\<open>!readme\<close>: true for \<open>null\<close>, \<open>undefined\<close> and the empty string\<close>
  "falsy v = (case v of Null \<Rightarrow> True | Undefined \<Rightarrow> True | Text s \<Rightarrow> s = [])"

definition parseReadme :: "readme_arg \<Rightarrow> parsed_readme" where
  "parseReadme v =
     (if falsy v then Empty_object
      else (case v of
              Text r \<Rightarrow>
                Fields \<lparr>features = extract_features r,
                        installation = extract_installation r,
                        description = first_description (split_paragraphs [] r)\<rparr>
            | _ \<Rightarrow> Empty_object))"


section \<open>Template generator: \<open>generateFilename\<close>\<close>

text \<open>
  \<^verbatim>\<open>title.toLowerCase().replace(/[^a-z0-9]+/g, '-').replace(/^-|-$/g, '')\<close>

  The first replacement scans from the left; at a character outside \<open>[a-z0-9]\<close> the greedy
  \<open>+\<close> takes the whole run of such characters and the run becomes one hyphen.
\<close>

function replace_non_alnum_runs :: "string \<Rightarrow> string" where
  "replace_non_alnum_runs [] = []"
| "replace_non_alnum_runs (c # cs) =
     (if is_lower_alnum c then c # replace_non_alnum_runs cs
      else CHR ''-'' # replace_non_alnum_runs (dropWhile (\<lambda>d. \<not> is_lower_alnum d) cs))"
  by pat_completeness auto
termination
  by (relation "measure length") (auto simp: length_dropWhile_le less_Suc_eq_le)

text \<open>
  The second replacement has no \<open>m\<close> flag: \<open>^-\<close> matches only a hyphen at index 0 and
  \<open>-$\<close> only a hyphen at the last index. Matches are found left to right, so the hyphen
  at index 0 goes first and the last character is then looked at in what remains.
\<close>

definition strip_edge_hyphens :: "string \<Rightarrow> string" where
  "strip_edge_hyphens s =
     (let s1 = (case s of [] \<Rightarrow> [] | c # cs \<Rightarrow> if c = CHR ''-'' then cs else s)
      in if s1 \<noteq> [] \<and> last s1 = CHR ''-'' then butlast s1 else s1)"

definition slugify :: "string \<Rightarrow> string" where
  "slugify title = strip_edge_hyphens (replace_non_alnum_runs (toLowerCase title))"

text \<open>\<^verbatim>\<open>projectNumber?.match(/\d+/)\<close>: the leftmost maximal run of digits, if there is a digit.\<close>

definition match_digits :: "string \<Rightarrow> string option" where
  "match_digits s =
     (let r = dropWhile (\<lambda>c. \<not> is_digit c) s
      in if r = [] then None else Some (takeWhile is_digit r))"

text \<open>The decimal text of a number, as the template literal prints \<open>Date.now()\<close>.\<close>

fun show_nat :: "nat \<Rightarrow> string" where
  "show_nat n =
     (if n < 10 then [''0123456789'' ! n] else show_nat (n div 10) @ [''0123456789'' ! (n mod 10)])"

declare show_nat.simps [simp del]

text \<open>
  \<open>projectNumber\<close> may be \<open>null\<close> or \<open>undefined\<close> (the optional chaining \<open>?.\<close>): that is
  \<^const>\<open>None\<close>. The clock read by \<open>Date.now()\<close> is the parameter \<open>now\<close>.
\<close>

definition generateFilename :: "nat \<Rightarrow> string \<Rightarrow> string option \<Rightarrow> string" where
  "generateFilename now title projectNumber =
     (let numMatch = (case projectNumber of None \<Rightarrow> None | Some p \<Rightarrow> match_digits p);
          num = (case numMatch of Some d \<Rightarrow> d | None \<Rightarrow> show_nat now);
          slug = slugify title
      in ''day-'' @ num @ ''-'' @ slug @ ''.html'')"

section \<open>Browse page updater: \<open>updateBrowseHtml\<close>\<close>

definition match_lit :: "string \<Rightarrow> string \<Rightarrow> string option" where
  \<comment> \<open>a literal at the start of \<open>s\<close>: what follows it\<close>
  "match_lit lit s = (if startsWith s lit then Some (drop (length lit) s) else None)"

definition skip_spaces :: "string \<Rightarrow> string" where
  \<comment> \<open>\<open>\s*\<close> before a literal that starts with a character that is not white space\<close>
  "skip_spaces s = dropWhile is_space s"

definition marker :: string where
  "marker = ''<!-- Professional Experience -->''"

text \<open>
  \<^verbatim>\<open>\s*\n\s*<!-- Professional Experience -->\<close>: the first \<open>\s*\<close> backs off to a line feed
  of the white-space run and the second takes the rest of the run, so the run must
  contain a line feed and the comment must follow the run.
\<close>

definition match_marker :: "string \<Rightarrow> string option" where
  "match_marker s =
     (if CHR ''\<newline>'' \<in> set (takeWhile is_space s) then match_lit marker (skip_spaces s) else None)"

text \<open>
  \<^verbatim>\<open>/(<\/div>\s*<\/div>\s*<\/div>\s*<\/section>\s*\n\s*<!-- Professional Experience -->)/\<close>
  and \<^verbatim>\<open>/(    <\/section>\s*\n\s*<!-- Professional Experience -->)/\<close>, matched at the start
  of \<open>s\<close>: the text after the match.
\<close>

definition insertPattern :: "string \<Rightarrow> string option" where
  "insertPattern s =
     Option.bind (match_lit ''</div>'' s) (\<lambda>r1.
     Option.bind (match_lit ''</div>'' (skip_spaces r1)) (\<lambda>r2.
     Option.bind (match_lit ''</div>'' (skip_spaces r2)) (\<lambda>r3.
     Option.bind (match_lit ''</section>'' (skip_spaces r3)) match_marker)))"

definition fallbackPattern :: "string \<Rightarrow> string option" where
  "fallbackPattern s = Option.bind (match_lit ''    </section>'' s) match_marker"

text \<open>
  The leftmost match of a pattern in \<open>s\<close>: the text before it, the matched text and the
  text after it.
\<close>

fun search_from :: "(string \<Rightarrow> string option) \<Rightarrow> string \<Rightarrow> string \<Rightarrow> (string \<times> string \<times> string) option" where
  "search_from pat pre [] =
     (case pat [] of Some rest \<Rightarrow> Some (pre, [], rest) | None \<Rightarrow> None)"
| "search_from pat pre (c # cs) =
     (case pat (c # cs) of
        Some rest \<Rightarrow> Some (pre, take (length (c # cs) - length rest) (c # cs), rest)
      | None \<Rightarrow> search_from pat (pre @ [c]) cs)"

definition regex_test :: "(string \<Rightarrow> string option) \<Rightarrow> string \<Rightarrow> bool" where
  "regex_test pat s = (search_from pat [] s \<noteq> None)"

text \<open>
  The replacement text of \<open>String.prototype.replace\<close> for a pattern whose only group is
  the whole match: \<open>$$\<close> is a dollar sign, \<open>$&\<close>, \<open>$1\<close> and \<open>$01\<close> are the matched text,
  \<open>$`\<close> and \<open>$'\<close> the text before and after the match, any other \<open>$\<close> stays.
\<close>

fun substitute :: "string \<Rightarrow> string \<Rightarrow> string \<Rightarrow> string \<Rightarrow> string" where
  "substitute m b a (c # d # rest) =
     (if c \<noteq> CHR ''$'' then c # substitute m b a (d # rest)
      else if d = CHR ''$'' then CHR ''$'' # substitute m b a rest
      else if d = CHR ''&'' \<or> d = CHR ''1'' then m @ substitute m b a rest
      else if d = CHR 0x60 then b @ substitute m b a rest
      else if d = CHR 0x27 then a @ substitute m b a rest
      else if d = CHR ''0'' \<and> startsWith rest ''1'' then m @ substitute m b a (drop 1 rest)
      else c # substitute m b a (d # rest))"
| "substitute m b a cs = cs"

definition replace_first :: "(string \<Rightarrow> string option) \<Rightarrow> string \<Rightarrow> string \<Rightarrow> string" where
  "replace_first pat template s =
     (case search_from pat [] s of
        None \<Rightarrow> s
      | Some (b, m, a) \<Rightarrow> b @ substitute m b a template @ a)"

definition closing_tags :: string where
  "closing_tags =
     ''\<newline>            </div>\<newline>        </div>\<newline>    </section>\<newline>\<newline>    <!-- Professional Experience -->''"

text \<open>
  The state is the content of \<open>browse.html\<close>, \<^const>\<open>None\<close> when the file cannot be
  read. \<open>cardHtml\<close> is the text \<open>generateProjectCard(projectData, filename)\<close> returns.
  The result is the error thrown, if any, and the content of the file afterwards.
\<close>

definition updateBrowseHtml :: "string \<Rightarrow> string option \<Rightarrow> (error + unit) \<times> string option" where
  "updateBrowseHtml cardHtml file =
     (case file of
        None \<Rightarrow> (Inl (ReadFailed ''browse.html''), file)
      | Some browseContent \<Rightarrow>
          if \<not> regex_test insertPattern browseContent then
            if regex_test fallbackPattern browseContent
            then (Inr (), Some (replace_first fallbackPattern (cardHtml @ closing_tags) browseContent))
            else (Inl InsertionPointNotFound, file)
          else (Inr (), Some (replace_first insertPattern (cardHtml @ closing_tags) browseContent)))"


section \<open>Browse page updater: \<open>getNextProjectNumber\<close>\<close>














chapter \<open>Properties\<close>

section \<open>Properties of \<open>parseGitHubUrl\<close>\<close>












section \<open>Properties of \<open>fetchRepoData\<close>\<close>












section \<open>Properties of \<open>detectTechStack\<close>\<close>



















































section \<open>Properties of \<open>parseReadme\<close>\<close>

text \<open>
  C10. For a \<open>null\<close>, \<open>undefined\<close> or empty README the result is the empty object:
  reading \<open>features\<close>, \<open>installation\<close> or \<open>description\<close> from it gives \<open>undefined\<close>. For
  every non-empty README the result is the record with the three fields, which hold the
  empty lists and the empty string when nothing is found (as for the README \<open>x\<close>).
\<close>

theorem parseReadme_falsy_empty_object:
  "parseReadme Null = Empty_object \<and>
   parseReadme Undefined = Empty_object \<and>
   parseReadme (Text []) = Empty_object \<and>
   get_features Empty_object = None \<and>
   get_installation Empty_object = None \<and>
   get_description Empty_object = None \<and>
   (r \<noteq> [] \<longrightarrow>
      (\<exists>f i d. parseReadme (Text r) = Fields \<lparr>features = f, installation = i, description = d\<rparr>)) \<and>
   parseReadme (Text ''x'') = Fields \<lparr>features = [], installation = [], description = []\<rparr>"
proof -
  have "parseReadme (Text ''x'') = Fields \<lparr>features = [], installation = [], description = []\<rparr>"
    by code_simp
  then show ?thesis by (simp add: parseReadme_def falsy_def)
qed

theorem parseReadme_falsy_empty_object_witness:
  "\<exists>f i d. parseReadme (Text ''# Demo'') = Fields \<lparr>features = f, installation = i, description = d\<rparr>"
proof -
  have "''# Demo'' \<noteq> []" by simp
  with parseReadme_falsy_empty_object [of "''# Demo''"] show ?thesis by blast
qed

subsection \<open>The description\<close>











subsection \<open>The features\<close>



definition one_line :: "string \<Rightarrow> bool" where
  "one_line s = list_all (\<lambda>x. \<not> is_line_terminator x) s"



















lemma one_line_append [simp]: "one_line (a @ b) \<longleftrightarrow> one_line a \<and> one_line b"
  by (simp add: one_line_def)



































section \<open>Properties of slugification\<close>

fun no_double_hyphen :: "string \<Rightarrow> bool" where
  "no_double_hyphen (a # b # r) = (\<not> (a = CHR ''-'' \<and> b = CHR ''-'') \<and> no_double_hyphen (b # r))"
| "no_double_hyphen _ = True"

definition slug_chars :: "string \<Rightarrow> bool" where
  "slug_chars s = (\<forall>c \<in> set s. is_lower_alnum c \<or> c = CHR ''-'')"

lemma hyphen_not_alnum [simp]: "\<not> is_lower_alnum (CHR ''-'')"
  by (simp add: is_lower_alnum_def)

lemma toLowerChar_alnum: "is_lower_alnum c \<Longrightarrow> toLowerChar c = c"
  by (auto simp: is_lower_alnum_def toLowerChar_def Let_def)

lemma toLowerChar_hyphen [simp]: "toLowerChar (CHR ''-'') = CHR ''-''"
  by (simp add: toLowerChar_def)

lemma toLowerCase_slug_chars: "slug_chars s \<Longrightarrow> toLowerCase s = s"
  unfolding slug_chars_def toLowerCase_def
  by (induction s) (auto simp: toLowerChar_alnum)

lemma dropWhile_head_alnum:
  "dropWhile (\<lambda>d. \<not> is_lower_alnum d) cs = [] \<or>
   is_lower_alnum (hd (dropWhile (\<lambda>d. \<not> is_lower_alnum d) cs))"
  using hd_dropWhile [of "\<lambda>d. \<not> is_lower_alnum d" cs] by blast

lemma replace_slug_chars: "slug_chars (replace_non_alnum_runs s)"
  by (induction s rule: replace_non_alnum_runs.induct) (auto simp: slug_chars_def)

lemma replace_no_double: "no_double_hyphen (replace_non_alnum_runs s)"
proof (induction s rule: replace_non_alnum_runs.induct)
  case 1
  show ?case by simp
next
  case (2 c cs)
  show ?case
  proof (cases "is_lower_alnum c")
    case True
    with 2 show ?thesis
      by (cases "replace_non_alnum_runs cs") auto
  next
    case False
    let ?d = "dropWhile (\<lambda>d. \<not> is_lower_alnum d) cs"
    have ih: "no_double_hyphen (replace_non_alnum_runs ?d)"
      using 2 False by simp
    show ?thesis
    proof (cases ?d)
      case Nil
      with False show ?thesis by (simp del: dropWhile_eq_Nil_conv)
    next
      case (Cons e es)
      with dropWhile_head_alnum [of cs] have "is_lower_alnum e" by simp
      with Cons ih False show ?thesis by auto
    qed
  qed
qed

lemma replace_fixed: "slug_chars s \<Longrightarrow> no_double_hyphen s \<Longrightarrow> replace_non_alnum_runs s = s"
proof (induction s rule: replace_non_alnum_runs.induct)
  case 1
  show ?case by simp
next
  case (2 c cs)
  have sc: "slug_chars cs" using "2.prems"(1) by (simp add: slug_chars_def)
  have nd: "no_double_hyphen cs" using "2.prems"(2) by (cases cs) auto
  show ?case
  proof (cases "is_lower_alnum c")
    case True
    with 2 sc nd show ?thesis by simp
  next
    case False
    then have c: "c = CHR ''-''" using "2.prems"(1) by (simp add: slug_chars_def)
    have "dropWhile (\<lambda>d. \<not> is_lower_alnum d) cs = cs"
    proof (cases cs)
      case Nil
      then show ?thesis by simp
    next
      case (Cons e es)
      with "2.prems" c have "e \<noteq> CHR ''-''" by auto
      with Cons sc have "is_lower_alnum e" by (simp add: slug_chars_def)
      with Cons show ?thesis by simp
    qed
    with 2 False sc nd c show ?thesis by simp
  qed
qed

lemma no_double_hyphen_tl: "no_double_hyphen (c # cs) \<Longrightarrow> no_double_hyphen cs"
  by (cases cs) auto

lemma no_double_hyphen_butlast: "no_double_hyphen s \<Longrightarrow> no_double_hyphen (butlast s)"
  by (induction s rule: no_double_hyphen.induct) (auto split: if_splits)

lemma slug_chars_butlast: "slug_chars s \<Longrightarrow> slug_chars (butlast s)"
  unfolding slug_chars_def by (auto dest: in_set_butlastD)

definition drop_leading_hyphen :: "string \<Rightarrow> string" where
  "drop_leading_hyphen s = (case s of [] \<Rightarrow> [] | c # cs \<Rightarrow> if c = CHR ''-'' then cs else s)"

lemma strip_edge_hyphens_alt:
  "strip_edge_hyphens s =
     (let s1 = drop_leading_hyphen s
      in if s1 \<noteq> [] \<and> last s1 = CHR ''-'' then butlast s1 else s1)"
  by (simp add: strip_edge_hyphens_def drop_leading_hyphen_def)

lemma drop_leading_slug_chars: "slug_chars s \<Longrightarrow> slug_chars (drop_leading_hyphen s)"
  by (cases s) (auto simp: slug_chars_def drop_leading_hyphen_def)

lemma drop_leading_no_double: "no_double_hyphen s \<Longrightarrow> no_double_hyphen (drop_leading_hyphen s)"
  by (cases s) (auto simp: drop_leading_hyphen_def dest: no_double_hyphen_tl)

lemma drop_leading_no_prefix:
  "no_double_hyphen s \<Longrightarrow> \<not> prefix ''-'' (drop_leading_hyphen s)"
proof (cases s)
  case Nil
  then show ?thesis by (simp add: drop_leading_hyphen_def)
next
  case (Cons c cs)
  assume "no_double_hyphen s"
  with Cons show ?thesis
    by (cases cs) (auto simp: drop_leading_hyphen_def)
qed

lemma butlast_no_prefix: "\<not> prefix ''-'' t \<Longrightarrow> \<not> prefix ''-'' (butlast t)"
  by (cases t) (auto simp: prefix_Cons split: if_splits)

lemma suffix_hyphen_iff: "suffix ''-'' t \<longleftrightarrow> t \<noteq> [] \<and> last t = CHR ''-''"
  by (cases t rule: rev_cases) (auto simp: suffix_def)

lemma strip_slug_chars: "slug_chars s \<Longrightarrow> slug_chars (strip_edge_hyphens s)"
  unfolding strip_edge_hyphens_alt Let_def
  by (simp add: drop_leading_slug_chars slug_chars_butlast)

lemma strip_no_double: "no_double_hyphen s \<Longrightarrow> no_double_hyphen (strip_edge_hyphens s)"
  unfolding strip_edge_hyphens_alt Let_def
  by (simp add: drop_leading_no_double no_double_hyphen_butlast)

lemma no_double_last_butlast:
  "no_double_hyphen s \<Longrightarrow> s \<noteq> [] \<Longrightarrow> last s = CHR ''-'' \<Longrightarrow> butlast s \<noteq> [] \<Longrightarrow>
   last (butlast s) \<noteq> CHR ''-''"
  by (induction s rule: no_double_hyphen.induct) (auto split: if_splits)

lemma strip_no_leading:
  "no_double_hyphen s \<Longrightarrow> \<not> prefix ''-'' (strip_edge_hyphens s)"
  unfolding strip_edge_hyphens_alt Let_def
  by (simp add: drop_leading_no_prefix butlast_no_prefix)

lemma strip_no_trailing:
  "no_double_hyphen s \<Longrightarrow> \<not> suffix ''-'' (strip_edge_hyphens s)"
  unfolding strip_edge_hyphens_alt Let_def suffix_hyphen_iff
  using no_double_last_butlast [OF drop_leading_no_double, of s] by auto

lemma strip_fixed:
  "\<not> prefix ''-'' s \<Longrightarrow> \<not> suffix ''-'' s \<Longrightarrow> strip_edge_hyphens s = s"
proof -
  assume p: "\<not> prefix ''-'' s" and q: "\<not> suffix ''-'' s"
  have "s = [] \<or> last s \<noteq> CHR ''-''"
    using q by (auto simp: suffix_hyphen_iff)
  with p show ?thesis
    by (cases s) (auto simp: strip_edge_hyphens_def Let_def)
qed

lemma no_double_not_sublist: "no_double_hyphen s \<Longrightarrow> \<not> sublist ''--'' s"
proof (induction s rule: no_double_hyphen.induct)
  case (1 a b r)
  then show ?case by (auto simp: sublist_Cons_right prefix_Cons)
qed (auto simp: sublist_Cons_right prefix_Cons)

lemma slugify_example: "slugify ''My Cool--App!'' = ''my-cool-app''"
  by code_simp

text \<open>
  C6. Slugification is idempotent, and for every title its result has no leading hyphen,
  no trailing hyphen and no two consecutive hyphens; \<open>My Cool--App!\<close> becomes
  \<open>my-cool-app\<close>.
\<close>

theorem slugify_idempotent_clean:
  "slugify (slugify t) = slugify t \<and>
   \<not> prefix ''-'' (slugify t) \<and>
   \<not> suffix ''-'' (slugify t) \<and>
   \<not> sublist ''--'' (slugify t) \<and>
   slugify ''My Cool--App!'' = ''my-cool-app''"
proof -
  let ?r = "replace_non_alnum_runs (toLowerCase t)"
  have sc: "slug_chars (slugify t)"
    unfolding slugify_def by (rule strip_slug_chars [OF replace_slug_chars])
  have nd: "no_double_hyphen (slugify t)"
    unfolding slugify_def by (rule strip_no_double [OF replace_no_double])
  have lead: "\<not> prefix ''-'' (slugify t)"
    unfolding slugify_def by (rule strip_no_leading [OF replace_no_double])
  have trail: "\<not> suffix ''-'' (slugify t)"
    unfolding slugify_def by (rule strip_no_trailing [OF replace_no_double])
  have "slugify (slugify t) = strip_edge_hyphens (replace_non_alnum_runs (slugify t))"
    by (simp add: slugify_def toLowerCase_slug_chars [OF sc [unfolded slugify_def]])
  also have "\<dots> = strip_edge_hyphens (slugify t)"
    by (simp add: replace_fixed [OF sc nd])
  also have "\<dots> = slugify t"
    by (rule strip_fixed [OF lead trail])
  finally have idem: "slugify (slugify t) = slugify t" .
  from idem lead trail no_double_not_sublist [OF nd] slugify_example
  show ?thesis by blast
qed

section \<open>Decimal numerals\<close>

text \<open>The number written by a digit string, the last character being the units.\<close>

abbreviation positional_value :: "string \<Rightarrow> nat" where
  "positional_value ds \<equiv> (\<Sum>i < length ds. (of_char (rev ds ! i) - 48) * 10 ^ i)"

lemma positional_value_snoc:
  "positional_value (ds @ [d]) = 10 * positional_value ds + (of_char d - 48)"
proof -
  have "positional_value (ds @ [d]) =
      (of_char d - 48) + (\<Sum>i < length ds. (of_char (rev ds ! i) - 48) * 10 ^ Suc i)"
    by (simp add: sum.lessThan_Suc_shift del: sum.lessThan_Suc)
  also have "(\<Sum>i < length ds. (of_char (rev ds ! i) - 48) * 10 ^ Suc i) =
      10 * positional_value ds"
    by (simp add: sum_distrib_left mult.assoc mult.left_commute)
  finally show ?thesis by simp
qed

lemma is_digit_iff: "is_digit c \<longleftrightarrow> c \<in> set ''0123456789''"
proof
  assume "is_digit c"
  then have "48 \<le> (of_char c :: nat) \<and> (of_char c :: nat) \<le> 57"
    by (simp add: is_digit_def Let_def)
  then consider "(of_char c :: nat) = of_char CHR ''0''" | "(of_char c :: nat) = of_char CHR ''1''"
    | "(of_char c :: nat) = of_char CHR ''2''" | "(of_char c :: nat) = of_char CHR ''3''"
    | "(of_char c :: nat) = of_char CHR ''4''" | "(of_char c :: nat) = of_char CHR ''5''"
    | "(of_char c :: nat) = of_char CHR ''6''" | "(of_char c :: nat) = of_char CHR ''7''"
    | "(of_char c :: nat) = of_char CHR ''8''" | "(of_char c :: nat) = of_char CHR ''9''"
    by atomize_elim (simp, arith)
  then show "c \<in> set ''0123456789''"
    by cases (simp_all only: of_char_eq_iff, simp_all)
next
  assume "c \<in> set ''0123456789''"
  then show "is_digit c" by (auto simp: is_digit_def)
qed

section \<open>Properties of \<open>generateFilename\<close>\<close>

lemma match_digits_run:
  assumes pre: "\<forall>c \<in> set pre. \<not> is_digit c"
    and ds: "ds \<noteq> []" "\<forall>c \<in> set ds. is_digit c"
    and post: "takeWhile is_digit post = []"
  shows "match_digits (pre @ ds @ post) = Some ds"
proof -
  obtain d ds' where d: "ds = d # ds'" using ds(1) by (cases ds) auto
  have dg: "is_digit d" using ds(2) d by simp
  have dw: "dropWhile (\<lambda>c. \<not> is_digit c) (pre @ ds @ post) = ds @ post"
    using pre d dg by (simp add: dropWhile_append3 [of "\<lambda>c. \<not> is_digit c" d pre "ds' @ post"])
  have tw: "takeWhile is_digit (ds @ post) = ds"
    using ds(2) post by simp
  show ?thesis
    using dw tw d by (simp add: match_digits_def Let_def)
qed

lemma match_digits_none: "\<forall>c \<in> set s. \<not> is_digit c \<Longrightarrow> match_digits s = None"
  by (simp add: match_digits_def Let_def)


lemma digit_char:
  assumes "k < 10"
  shows "(of_char (''0123456789'' ! k) :: nat) = 48 + k \<and> ''0123456789'' ! k \<in> set ''0123456789''"
proof -
  from assms consider "k = 0" | "k = 1" | "k = 2" | "k = 3" | "k = 4" | "k = 5" | "k = 6"
    | "k = 7" | "k = 8" | "k = 9"
    by atomize_elim arith
  then show ?thesis by cases simp_all
qed

lemma show_nat_value: "positional_value (show_nat n) = n"
proof (induction n rule: show_nat.induct)
  case (1 n)
  show ?case
  proof (cases "n < 10")
    case True
    then show ?thesis using digit_char [of n] by (simp add: show_nat.simps [of n])
  next
    case False
    then have ih: "positional_value (show_nat (n div 10)) = n div 10" using 1 by simp
    have "show_nat n = show_nat (n div 10) @ [''0123456789'' ! (n mod 10)]"
      using False by (simp add: show_nat.simps [of n])
    then have "positional_value (show_nat n) =
        10 * positional_value (show_nat (n div 10)) + (of_char (''0123456789'' ! (n mod 10)) - 48)"
      by (simp only: positional_value_snoc)
    with ih digit_char [of "n mod 10"] show ?thesis by simp
  qed
qed

lemma show_nat_digits: "show_nat n \<noteq> [] \<and> set (show_nat n) \<subseteq> set ''0123456789''"
proof (induction n rule: show_nat.induct)
  case (1 n)
  show ?case
  proof (cases "n < 10")
    case True
    then show ?thesis
      using digit_char [of n] by (simp add: show_nat.simps [of n])
  next
    case False
    with 1 digit_char [of "n mod 10"] show ?thesis
      by (simp add: show_nat.simps [of n])
  qed
qed

lemma show_nat_no_leading_zero: "n \<noteq> 0 \<Longrightarrow> hd (show_nat n) \<noteq> CHR ''0''"
proof (induction n rule: show_nat.induct)
  case (1 n)
  show ?case
  proof (cases "n < 10")
    case True
    with "1.prems" consider "n = 1" | "n = 2" | "n = 3" | "n = 4" | "n = 5" | "n = 6"
      | "n = 7" | "n = 8" | "n = 9"
      by atomize_elim arith
    then show ?thesis by cases (simp_all add: show_nat.simps)
  next
    case False
    then have "n div 10 \<noteq> 0" by simp
    with 1 False have "hd (show_nat (n div 10)) \<noteq> CHR ''0''" by simp
    moreover have "show_nat (n div 10) \<noteq> []" using show_nat_digits by blast
    ultimately show ?thesis using False by (simp add: show_nat.simps [of n])
  qed
qed

text \<open>
  A title cut into its words, the maximal runs of ASCII letters and digits, each with
  the run of other characters that follows it, after a leading run \<open>lead\<close> of other
  characters. The slug is the words in lower case, joined by single hyphens.
\<close>

definition is_ascii_alnum :: "char \<Rightarrow> bool" where
  "is_ascii_alnum c =
     (let n = (of_char c :: nat)
      in (48 \<le> n \<and> n \<le> 57) \<or> (65 \<le> n \<and> n \<le> 90) \<or> (97 \<le> n \<and> n \<le> 122))"

definition ascii_lower :: "char \<Rightarrow> char" where
  "ascii_lower c =
     (let n = (of_char c :: nat) in if 65 \<le> n \<and> n \<le> 90 then char_of (n + 32) else c)"

definition title_of :: "string \<Rightarrow> (string \<times> string) list \<Rightarrow> string" where
  "title_of lead pairs = lead @ concat (map (\<lambda>(w, s). w @ s) pairs)"

definition words_and_gaps :: "string \<Rightarrow> (string \<times> string) list \<Rightarrow> bool" where
  "words_and_gaps lead pairs =
     (list_all (\<lambda>c. \<not> is_ascii_alnum c) lead \<and>
      list_all (\<lambda>(w, s). w \<noteq> [] \<and> list_all is_ascii_alnum w \<and>
                 list_all (\<lambda>c. \<not> is_ascii_alnum c) s) pairs \<and>
      list_all (\<lambda>(w, s). s \<noteq> []) (butlast pairs))"

fun join_hyphen :: "string list \<Rightarrow> string" where
  "join_hyphen [] = []"
| "join_hyphen [w] = w"
| "join_hyphen (w # v # ws) = w @ ''-'' @ join_hyphen (v # ws)"

lemma lower_alnum_iff: "is_lower_alnum (toLowerChar c) \<longleftrightarrow> is_ascii_alnum c"
  by (auto simp: is_lower_alnum_def toLowerChar_def is_ascii_alnum_def Let_def)

lemma replace_word:
  "list_all is_lower_alnum w \<Longrightarrow> replace_non_alnum_runs (w @ r) = w @ replace_non_alnum_runs r"
  by (induction w) auto

lemma replace_gap:
  assumes "s \<noteq> []" "list_all (\<lambda>c. \<not> is_lower_alnum c) s" "r = [] \<or> is_lower_alnum (hd r)"
  shows "replace_non_alnum_runs (s @ r) = CHR ''-'' # replace_non_alnum_runs r"
proof -
  obtain c cs where s: "s = c # cs" using assms(1) by (cases s) auto
  have "dropWhile (\<lambda>d. \<not> is_lower_alnum d) (cs @ r) = r"
    using assms(2,3) s by (cases r) (auto simp: list_all_iff dropWhile_append)
  with assms(2) s show ?thesis by simp
qed

lemma join_hyphen_Cons:
  "ws \<noteq> [] \<Longrightarrow> join_hyphen (w # ws) = w @ ''-'' @ join_hyphen ws"
  by (cases ws) simp_all

lemma join_hyphen_edges:
  assumes "ws \<noteq> []" "\<forall>w \<in> set ws. w \<noteq> [] \<and> list_all is_lower_alnum w"
  shows "join_hyphen ws \<noteq> [] \<and> is_lower_alnum (hd (join_hyphen ws)) \<and>
         is_lower_alnum (last (join_hyphen ws))"
  using assms
proof (induction ws rule: join_hyphen.induct)
  case 1
  then show ?case by simp
next
  case (2 w)
  then show ?case using hd_in_set [of w] last_in_set [of w] by (simp add: list_all_iff)
next
  case (3 w v ws)
  then have "join_hyphen (v # ws) \<noteq> [] \<and> is_lower_alnum (last (join_hyphen (v # ws)))"
    by simp
  moreover have "w \<noteq> [] \<and> is_lower_alnum (hd w)"
    using "3.prems" by (cases w) auto
  ultimately show ?case by simp
qed

definition lower_pairs :: "(string \<times> string) list \<Rightarrow> bool" where
  "lower_pairs pairs =
     (list_all (\<lambda>(w, s). w \<noteq> [] \<and> list_all is_lower_alnum w \<and>
                 list_all (\<lambda>c. \<not> is_lower_alnum c) s) pairs \<and>
      list_all (\<lambda>(w, s). s \<noteq> []) (butlast pairs))"

lemma replace_pairs:
  "lower_pairs pairs \<Longrightarrow>
   replace_non_alnum_runs (concat (map (\<lambda>(w, s). w @ s) pairs)) =
     join_hyphen (map fst pairs) @ (if pairs \<noteq> [] \<and> snd (last pairs) \<noteq> [] then ''-'' else [])"
proof (induction pairs)
  case Nil
  show ?case by simp
next
  case (Cons p ps)
  obtain w s where p: "p = (w, s)" by (cases p)
  from Cons.prems have w: "list_all is_lower_alnum w"
    and s: "list_all (\<lambda>c. \<not> is_lower_alnum c) s"
    by (simp_all add: lower_pairs_def p)
  show ?case
  proof (cases ps)
    case Nil
    show ?thesis
    proof (cases "s = []")
      case True
      with Nil p w show ?thesis using replace_word [of w "[]"] by simp
    next
      case False
      with s have "replace_non_alnum_runs (s @ []) = CHR ''-'' # replace_non_alnum_runs []"
        by (intro replace_gap) simp_all
      with Nil p w False show ?thesis using replace_word [of w s] by simp
    qed
  next
    case (Cons q qs)
    obtain v u where q: "q = (v, u)" by (cases q)
    let ?rest = "concat (map (\<lambda>(w, s). w @ s) ps)"
    from Cons.prems Cons q p have ne: "s \<noteq> []" and v: "v \<noteq> [] \<and> list_all is_lower_alnum v"
      and lp: "lower_pairs ps"
      by (simp_all add: lower_pairs_def)
    from v Cons q have hd: "?rest = [] \<or> is_lower_alnum (hd ?rest)"
      by (cases v) auto
    have "replace_non_alnum_runs (w @ s @ ?rest) = w @ CHR ''-'' # replace_non_alnum_runs ?rest"
      using replace_word [OF w, of "s @ ?rest"] replace_gap [OF ne s hd] by simp
    with Cons.IH [OF lp] Cons p show ?thesis by simp
  qed
qed

lemma strip_edge_hyphens_core:
  assumes "j \<noteq> []" "hd j \<noteq> CHR ''-''" "last j \<noteq> CHR ''-''"
    and "a = [] \<or> a = ''-''" "b = [] \<or> b = ''-''"
  shows "strip_edge_hyphens (a @ j @ b) = j"
  using assms by (cases j) (auto simp: strip_edge_hyphens_def butlast_append)

lemma slugify_words:
  assumes "words_and_gaps lead pairs"
  shows "slugify (title_of lead pairs) = join_hyphen (map (\<lambda>(w, s). toLowerCase w) pairs)"
proof -
  let ?lp = "map (\<lambda>(w, s). (toLowerCase w, toLowerCase s)) pairs"
  let ?body = "concat (map (\<lambda>(w, s). w @ s) ?lp)"
  let ?j = "join_hyphen (map fst ?lp)"
  let ?a = "if lead = [] then [] else ''-''"
  let ?b = "if ?lp \<noteq> [] \<and> snd (last ?lp) \<noteq> [] then ''-'' else []"
  have low: "toLowerCase (title_of lead pairs) = toLowerCase lead @ ?body"
    by (induction pairs) (auto simp: title_of_def toLowerCase_def)
  have all: "list_all (\<lambda>(w, s). w \<noteq> [] \<and> list_all is_lower_alnum w \<and>
                 list_all (\<lambda>c. \<not> is_lower_alnum c) s) ?lp"
    using assms
    by (auto simp: words_and_gaps_def list_all_iff toLowerCase_def lower_alnum_iff
        case_prod_beta)
  have "list_all (\<lambda>(w, s). s \<noteq> []) (butlast ?lp)"
    using assms
    by (auto simp: words_and_gaps_def list_all_iff toLowerCase_def map_butlast [symmetric]
        case_prod_beta)
  with all have lp: "lower_pairs ?lp" by (simp add: lower_pairs_def)
  have body: "replace_non_alnum_runs ?body = ?j @ ?b"
    by (rule replace_pairs [OF lp])
  have hd: "?body = [] \<or> is_lower_alnum (hd ?body)"
  proof (cases pairs)
    case Nil
    then show ?thesis by simp
  next
    case (Cons p ps)
    obtain w s where "p = (w, s)" by (cases p)
    with all Cons show ?thesis by (cases "toLowerCase w") auto
  qed
  have lead: "list_all (\<lambda>c. \<not> is_lower_alnum c) (toLowerCase lead)"
    using assms by (auto simp: words_and_gaps_def list_all_iff toLowerCase_def lower_alnum_iff)
  have rep: "replace_non_alnum_runs (toLowerCase (title_of lead pairs)) = ?a @ ?j @ ?b"
  proof (cases "lead = []")
    case True
    with low body show ?thesis by (simp add: toLowerCase_def)
  next
    case False
    then have "toLowerCase lead \<noteq> []" by (simp add: toLowerCase_def)
    from replace_gap [OF this lead hd] low body False show ?thesis by simp
  qed
  have fst: "map fst ?lp = map (\<lambda>(w, s). toLowerCase w) pairs"
    by (induction pairs) auto
  show ?thesis
  proof (cases pairs)
    case Nil
    with rep show ?thesis by (simp add: slugify_def strip_edge_hyphens_def)
  next
    case (Cons p ps)
    have "\<forall>w \<in> set (map fst ?lp). w \<noteq> [] \<and> list_all is_lower_alnum w"
      using all by (auto simp: list_all_iff)
    with Cons have "?j \<noteq> [] \<and> is_lower_alnum (hd ?j) \<and> is_lower_alnum (last ?j)"
      by (intro join_hyphen_edges) simp_all
    then have "?j \<noteq> []" "hd ?j \<noteq> CHR ''-''" "last ?j \<noteq> CHR ''-''"
      using hyphen_not_alnum by metis+
    then have "strip_edge_hyphens (?a @ ?j @ ?b) = ?j"
      by (rule strip_edge_hyphens_core) simp_all
    with rep have "slugify (title_of lead pairs) = ?j" by (simp only: slugify_def)
    with fst show ?thesis by (simp only:)
  qed
qed

lemma toLowerChar_ascii: "is_ascii_alnum c \<Longrightarrow> toLowerChar c = ascii_lower c"
  by (auto simp: is_ascii_alnum_def toLowerChar_def ascii_lower_def Let_def)

lemma lower_words:
  assumes "words_and_gaps lead pairs"
  shows "map (\<lambda>(w, s). toLowerCase w) pairs = map (\<lambda>(w, s). map ascii_lower w) pairs"
  using assms
  by (auto simp: words_and_gaps_def list_all_iff toLowerCase_def toLowerChar_ascii case_prod_beta)

text \<open>
  C7. The file name is \<open>day-<number>-<slug>.html\<close>. The number is the first (leftmost,
  maximal) run of decimal digits of the project-number label, copied as written; when the
  label has no digit or is absent it is the clock value in plain decimal: a non-empty
  run of digits that writes the clock value, without leading zero. The slug is the
  slugified title: the words of the title (its maximal runs of ASCII letters and
  digits) in lower case, joined by single hyphens. Title \<open>My App\<close> with label
  \<open>Project 7\<close> gives \<open>day-7-my-app.html\<close>.
\<close>

theorem generateFilename_format:
  "(set pre \<inter> set ''0123456789'' = {} \<and> ds \<noteq> [] \<and> set ds \<subseteq> set ''0123456789'' \<and>
      (post = [] \<or> hd post \<notin> set ''0123456789'') \<longrightarrow>
      generateFilename now title (Some (pre @ ds @ post)) =
        ''day-'' @ ds @ ''-'' @ slugify title @ ''.html'') \<and>
   (set label \<inter> set ''0123456789'' = {} \<longrightarrow>
      generateFilename now title (Some label) =
        ''day-'' @ show_nat now @ ''-'' @ slugify title @ ''.html'') \<and>
   generateFilename now title None = ''day-'' @ show_nat now @ ''-'' @ slugify title @ ''.html'' \<and>
   show_nat now \<noteq> [] \<and> set (show_nat now) \<subseteq> set ''0123456789'' \<and>
   positional_value (show_nat now) = now \<and>
   (now \<noteq> 0 \<longrightarrow> hd (show_nat now) \<noteq> CHR ''0'') \<and>
   (words_and_gaps lead pairs \<longrightarrow>
      slugify (title_of lead pairs) = join_hyphen (map (\<lambda>(w, s). map ascii_lower w) pairs)) \<and>
   generateFilename now ''My App'' (Some ''Project 7'') = ''day-7-my-app.html''"
proof -
  have ex: "generateFilename now ''My App'' (Some ''Project 7'') = ''day-7-my-app.html''"
  proof -
    have "match_digits ''Project 7'' = Some ''7''" by code_simp
    moreover have "slugify ''My App'' = ''my-app''" by code_simp
    ultimately show ?thesis by (simp add: generateFilename_def)
  qed
  have run: "generateFilename now title (Some (pre @ ds @ post)) =
        ''day-'' @ ds @ ''-'' @ slugify title @ ''.html''"
    if "set pre \<inter> set ''0123456789'' = {}" "ds \<noteq> []" "set ds \<subseteq> set ''0123456789''"
      "post = [] \<or> hd post \<notin> set ''0123456789''"
  proof -
    have "\<forall>c \<in> set pre. \<not> is_digit c" using that(1) unfolding is_digit_iff by blast
    moreover have "\<forall>c \<in> set ds. is_digit c" using that(3) unfolding is_digit_iff by blast
    moreover have "takeWhile is_digit post = []"
      using that(4) unfolding is_digit_iff by (cases post) auto
    ultimately have "match_digits (pre @ ds @ post) = Some ds"
      using that(2) by (intro match_digits_run)
    then show ?thesis by (simp add: generateFilename_def)
  qed
  have none: "generateFilename now title (Some label) =
        ''day-'' @ show_nat now @ ''-'' @ slugify title @ ''.html''"
    if "set label \<inter> set ''0123456789'' = {}"
  proof -
    have "\<forall>c \<in> set label. \<not> is_digit c" using that unfolding is_digit_iff by blast
    then show ?thesis by (simp add: generateFilename_def match_digits_none)
  qed
  have absent: "generateFilename now title None =
      ''day-'' @ show_nat now @ ''-'' @ slugify title @ ''.html''"
    by (simp add: generateFilename_def)
  have slug: "slugify (title_of lead pairs) =
      join_hyphen (map (\<lambda>(w, s). map ascii_lower w) pairs)"
    if "words_and_gaps lead pairs"
    using slugify_words [OF that] lower_words [OF that] by (simp only:)
  from run none absent ex slug show_nat_digits [of now] show_nat_value [of now]
    show_nat_no_leading_zero [of now]
  show ?thesis by (intro conjI impI) blast+
qed

theorem generateFilename_format_witness:
  "generateFilename 1700000000000 ''My Cool--App!'' (Some ''Project 007b8'') =
     ''day-007-my-cool-app.html'' \<and>
   generateFilename 1700000000000 ''My Cool--App!'' (Some ''Project'') =
     ''day-1700000000000-my-cool-app.html'' \<and>
   hd (show_nat 1700000000000) \<noteq> CHR ''0'' \<and>
   slugify (title_of ''  '' [(''My'', '' ''), (''Cool'', ''--''), (''App'', ''!'')]) = ''my-cool-app''"
proof -
  let ?pairs = "[(''My'', '' ''), (''Cool'', ''--''), (''App'', ''!'')]"
  note inst = generateFilename_format [of "''Project ''" "''007''" "''b8''" 1700000000000
      "''My Cool--App!''" "''Project''" "''  ''"
      "[(''My'', '' ''), (''Cool'', ''--''), (''App'', ''!'')]"]
  have a: "set ''Project '' \<inter> set ''0123456789'' = {}" by simp
  have b: "''007'' \<noteq> [] \<and> set ''007'' \<subseteq> set ''0123456789''" by simp
  have c: "''b8'' = [] \<or> hd ''b8'' \<notin> set ''0123456789''" by simp
  have d: "set ''Project'' \<inter> set ''0123456789'' = {}" by simp
  have s: "slugify ''My Cool--App!'' = ''my-cool-app''" by code_simp
  have n: "show_nat 1700000000000 = ''1700000000000''" by (simp add: show_nat.simps)
  have z: "(1700000000000 :: nat) \<noteq> 0" by simp
  have w: "words_and_gaps ''  '' ?pairs" by code_simp
  have j: "join_hyphen (map (\<lambda>(w, s). map ascii_lower w) ?pairs) = ''my-cool-app''"
    by code_simp
  from inst a b c have 1: "generateFilename 1700000000000 ''My Cool--App!'' (Some (''Project '' @ ''007'' @ ''b8'')) =
      ''day-'' @ ''007'' @ ''-'' @ slugify ''My Cool--App!'' @ ''.html''"
    by blast
  from inst d have 2: "generateFilename 1700000000000 ''My Cool--App!'' (Some ''Project'') =
      ''day-'' @ show_nat 1700000000000 @ ''-'' @ slugify ''My Cool--App!'' @ ''.html''"
    by blast
  from inst z have 3: "hd (show_nat 1700000000000) \<noteq> CHR ''0''" by blast
  from inst w have 4: "slugify (title_of ''  '' ?pairs) =
      join_hyphen (map (\<lambda>(w, s). map ascii_lower w) ?pairs)"
    by blast
  from 1 2 3 4 s n j show ?thesis by simp
qed

section \<open>Properties of \<open>updateBrowseHtml\<close>\<close>

text \<open>
  The claim's wording of a successful update: the card goes immediately before the
  matched anchor and everything else stays as it was.
\<close>

definition splice_before_anchor :: "(string \<Rightarrow> string option) \<Rightarrow> string \<Rightarrow> string \<Rightarrow> string" where
  "splice_before_anchor pat cardHtml s =
     (case search_from pat [] s of
        None \<Rightarrow> s
      | Some (b, m, a) \<Rightarrow> b @ cardHtml @ m @ a)"

definition page_canonical :: string where
  "page_canonical =
     ''<section><div><div><div>OLD</div>\<newline>            </div>\<newline>        </div>\<newline>    </section>\<newline>\<newline>    <!-- Professional Experience -->\<newline><p>rest</p>''"

lemma updateBrowseHtml_no_anchor:
  "\<not> regex_test insertPattern content \<Longrightarrow> \<not> regex_test fallbackPattern content \<Longrightarrow>
   updateBrowseHtml cardHtml (Some content) = (Inl InsertionPointNotFound, Some content)"
  by (simp add: updateBrowseHtml_def)

lemma updateBrowseHtml_unreadable:
  "updateBrowseHtml cardHtml None = (Inl (ReadFailed ''browse.html''), None)"
  by (simp add: updateBrowseHtml_def)

text \<open>
  Where a pattern matches, the whole matched text is replaced by the card followed by the
  fixed text \<^const>\<open>closing_tags\<close>, whatever the matched text was.
\<close>

lemma substitute_plain: "CHR ''$'' \<notin> set t \<Longrightarrow> substitute m b a t = t"
  by (induction m b a t rule: substitute.induct) auto

lemma closing_tags_plain: "CHR ''$'' \<notin> set closing_tags"
  by (simp add: closing_tags_def)

lemma updateBrowseHtml_primary:
  assumes "search_from insertPattern [] content = Some (b, m, a)" "CHR ''$'' \<notin> set cardHtml"
  shows "updateBrowseHtml cardHtml (Some content) = (Inr (), Some (b @ cardHtml @ closing_tags @ a))"
proof -
  have "substitute m b a (cardHtml @ closing_tags) = cardHtml @ closing_tags"
    using assms(2) closing_tags_plain by (intro substitute_plain) simp
  with assms(1) show ?thesis
    by (simp add: updateBrowseHtml_def regex_test_def replace_first_def)
qed

lemma updateBrowseHtml_fallback:
  assumes "search_from insertPattern [] content = None"
    "search_from fallbackPattern [] content = Some (b, m, a)" "CHR ''$'' \<notin> set cardHtml"
  shows "updateBrowseHtml cardHtml (Some content) = (Inr (), Some (b @ cardHtml @ closing_tags @ a))"
proof -
  have "substitute m b a (cardHtml @ closing_tags) = cardHtml @ closing_tags"
    using assms(3) closing_tags_plain by (intro substitute_plain) simp
  with assms(1,2) show ?thesis
    by (simp add: updateBrowseHtml_def regex_test_def replace_first_def)
qed

text \<open>
  C8. Without an anchor the update fails with the anchor-not-found error and writes
  nothing (\<open>updateBrowseHtml_no_anchor\<close>). With the primary anchor in the page, laid out
  exactly as the source's comment describes it, the update does not put the card before
  the anchor: the first \<open></div>\<close> of the matched text is replaced by the card, so the
  closing tag after \<open>OLD\<close> is lost, while splicing the card in before the anchor would
  keep it.
\<close>

theorem updateBrowseHtml_drops_closing_tag:
  "updateBrowseHtml ''<div>NEW</div>'' (Some page_canonical) =
     (Inr (), Some ''<section><div><div><div>OLD<div>NEW</div>\<newline>            </div>\<newline>        </div>\<newline>    </section>\<newline>\<newline>    <!-- Professional Experience -->\<newline><p>rest</p>'') \<and>
   splice_before_anchor insertPattern ''<div>NEW</div>'' page_canonical =
     ''<section><div><div><div>OLD<div>NEW</div></div>\<newline>            </div>\<newline>        </div>\<newline>    </section>\<newline>\<newline>    <!-- Professional Experience -->\<newline><p>rest</p>''"
  by code_simp


section \<open>Properties of \<open>getNextProjectNumber\<close>\<close>

















end
